theory Spec2Isabelle
  imports Complex_Main
begin

section \<open>Data model\<close>

text \<open>
  The development follows the most recent \<open>SolarSystem.tsx\<close> of the repository (the
  first document of \<open>src/unnamed/part_000\<close>) and the older \<open>OrbitRing.tsx\<close> of
  \<open>src/unnamed/part_005\<close>.

  JavaScript numbers are modelled as real numbers and the rounding of arithmetic is not
  modelled: \<open>Math.cos\<close> and \<open>Math.sin\<close> are \<^term>\<open>cos\<close> and \<^term>\<open>sin\<close>. The constant
  \<open>Math.PI\<close> is not \<^term>\<open>pi\<close> but the double nearest to it, a rational number.
\<close>

text \<open>\<open>THREE.Vector3\<close>: the three coordinates.\<close>

datatype Vector3 = Vector3 (vx: real) (vy: real) (vz: real)

text \<open>\<open>Vector3.length()\<close>: the Euclidean distance from the origin.\<close>

definition vlength :: "Vector3 \<Rightarrow> real" where
  "vlength v = sqrt ((vx v)\<^sup>2 + (vy v)\<^sup>2 + (vz v)\<^sup>2)"


text \<open>
  \<open>interface PlanetProps\<close>, the fields that \<open>Planet\<close> destructures and that decide
  motion or identity. \<open>size\<close> is \<open>size_prop\<close> here; the distance records, the
  children and \<open>onSelect\<close> play no part in the motion.
\<close>

record PlanetProps =
  position :: Vector3
  size_prop :: real
  color :: string
  orbitRadius :: real
  orbitSpeed :: real
  isHeliocentric :: bool
  name :: string

text \<open>
  The state owned by one mounted \<open>Planet\<close>: the \<open>angle\<close> of \<open>useState(0)\<close> and
  the three refs. A ref is \<open>None\<close> while its \<open>current\<close> is \<open>null\<close>; otherwise
  \<open>groupRef\<close> holds the group's \<open>position\<close> and \<open>meshRef\<close>, \<open>glowRef\<close> hold the
  \<open>rotation.y\<close> of their mesh, the only parts of these objects that the component
  writes.
\<close>

record PlanetState =
  angle :: real
  groupRef :: "Vector3 option"
  meshRef :: "real option"
  glowRef :: "real option"

section \<open>The orbit evaluator: the frame callback of \<open>Planet\<close>\<close>

text \<open>
  \<^verbatim>\<open>
  useFrame(() => {
    if (!groupRef.current || !meshRef.current || !glowRef.current) return;
    const newAngle = angle + orbitSpeed;
    setAngle(newAngle);
    if (orbitRadius > 0) {
      if (isHeliocentric || name === "Earth" || name === "Moon") {
        groupRef.current.position.x = Math.cos(newAngle) * orbitRadius;
        groupRef.current.position.z = Math.sin(newAngle) * orbitRadius;
      } else {
        const deferentX = Math.cos(newAngle) * orbitRadius;
        const deferentZ = Math.sin(newAngle) * orbitRadius;
        const epicycleRadius = orbitRadius * 0.05;
        const epicycleAngle = -newAngle * 1.5;
        const epiX = Math.cos(epicycleAngle) * epicycleRadius;
        const epiZ = Math.sin(epicycleAngle) * epicycleRadius;
        groupRef.current.position.x = deferentX + epiX;
        groupRef.current.position.z = deferentZ + epiZ;
      }
    } else {
      groupRef.current.position.set(...position);
    }
    meshRef.current.rotation.y += 0.005;
    glowRef.current.rotation.y += 0.005;
  });
  \<close>
  The orbiting branches assign \<open>x\<close> and \<open>z\<close> only, so the group keeps its \<open>y\<close>.
\<close>

definition newPosition :: "PlanetProps \<Rightarrow> real \<Rightarrow> Vector3 \<Rightarrow> Vector3" where
  "newPosition p newAngle g =
     (if orbitRadius p > 0 then
        (if isHeliocentric p \<or> name p = ''Earth'' \<or> name p = ''Moon'' then
           Vector3 (cos newAngle * orbitRadius p) (vy g) (sin newAngle * orbitRadius p)
         else
           (let deferentX = cos newAngle * orbitRadius p;
                deferentZ = sin newAngle * orbitRadius p;
                epicycleRadius = orbitRadius p * 0.05;
                epicycleAngle = - newAngle * 1.5;
                epiX = cos epicycleAngle * epicycleRadius;
                epiZ = sin epicycleAngle * epicycleRadius
            in Vector3 (deferentX + epiX) (vy g) (deferentZ + epiZ)))
      else position p)"

definition useFrame :: "PlanetProps \<Rightarrow> PlanetState \<Rightarrow> PlanetState" where
  "useFrame p s =
     (case groupRef s of
        None \<Rightarrow> s
      | Some g \<Rightarrow>
         (case meshRef s of
            None \<Rightarrow> s
          | Some m \<Rightarrow>
             (case glowRef s of
                None \<Rightarrow> s
              | Some w \<Rightarrow>
                 (let newAngle = angle s + orbitSpeed p
                  in s\<lparr>angle := newAngle,
                       groupRef := Some (newPosition p newAngle g),
                       meshRef := Some (m + 0.005),
                       glowRef := Some (w + 0.005)\<rparr>))))"

text \<open>
  The position that the JSX of \<open>Planet\<close> gives its group:
  \<^verbatim>\<open><group ref={groupRef} position={orbitRadius > 0 ? [orbitRadius, 0, 0] : position}>\<close>
\<close>

definition groupPositionProp :: "PlanetProps \<Rightarrow> Vector3" where
  "groupPositionProp p = (if orbitRadius p > 0 then Vector3 (orbitRadius p) 0 0 else position p)"

text \<open>
  A freshly mounted \<open>Planet\<close>: \<open>useState(0)\<close>, and after the first commit the refs
  point at the new objects: the group at the position of its JSX, the meshes unrotated.
\<close>

definition mount :: "PlanetProps \<Rightarrow> PlanetState" where
  "mount p =
     \<lparr>angle = 0,
      groupRef = Some (groupPositionProp p),
      meshRef = Some 0,
      glowRef = Some 0\<rparr>"

section \<open>The retrograde curve of the orbit rings\<close>

text \<open>
  \<^verbatim>\<open>
  class RetrogradeCurve extends THREE.Curve<THREE.Vector3> {
    constructor(radius: number, amplitudeFactor = 0.1, speedMultiplier = 2) { ... }
    getPoint(t: number): THREE.Vector3 {
      const angle = t * Math.PI * 2;
      const deferentX = Math.cos(angle) * this.radius;
      const deferentZ = Math.sin(angle) * this.radius;
      const epicycleRadius = this.radius * this.amplitudeFactor;
      const epicycleAngle = -this.speedMultiplier * angle;
      const epiX = Math.cos(epicycleAngle) * epicycleRadius;
      const epiZ = Math.sin(epicycleAngle) * epicycleRadius;
      return new THREE.Vector3(deferentX + epiX, 0, deferentZ + epiZ);
    }
  }
  \<close>
\<close>

text \<open>
  \<open>Math.PI\<close> is the IEEE double \<open>0x400921FB54442D18\<close>, that is
  \<open>884279719003555 / 281474976710656 = 3.141592653589793115997963...\<close>; it lies
  about \<open>1.2246 \<times> 10\<^sup>-\<^sup>1\<^sup>6\<close> below \<^term>\<open>pi\<close>.
\<close>

definition Math_PI :: real where
  "Math_PI = 884279719003555 / 281474976710656"

record RetrogradeCurve =
  radius :: real
  amplitudeFactor :: real
  speedMultiplier :: real

text \<open>The constructor; an omitted argument (\<open>None\<close>) takes its default.\<close>

definition newRetrogradeCurve :: "real \<Rightarrow> real option \<Rightarrow> real option \<Rightarrow> RetrogradeCurve" where
  "newRetrogradeCurve r a m =
     \<lparr>radius = r,
      amplitudeFactor = (case a of None \<Rightarrow> 0.1 | Some f \<Rightarrow> f),
      speedMultiplier = (case m of None \<Rightarrow> 2 | Some k \<Rightarrow> k)\<rparr>"

definition getPoint :: "RetrogradeCurve \<Rightarrow> real \<Rightarrow> Vector3" where
  "getPoint c t =
     (let angle = t * Math_PI * 2;
          deferentX = cos angle * radius c;
          deferentZ = sin angle * radius c;
          epicycleRadius = radius c * amplitudeFactor c;
          epicycleAngle = - speedMultiplier c * angle;
          epiX = cos epicycleAngle * epicycleRadius;
          epiZ = sin epicycleAngle * epicycleRadius
      in Vector3 (deferentX + epiX) 0 (deferentZ + epiZ))"

text \<open>
  The ring curve as \<open>OrbitRing\<close> builds it in \<open>src/unnamed/part_000\<close>:
  \<^verbatim>\<open>new RetrogradeCurve(radius, 0.1, 2)\<close>.
\<close>

definition ringCurve :: "real \<Rightarrow> RetrogradeCurve" where
  "ringCurve r = newRetrogradeCurve r (Some 0.1) (Some 2)"


section \<open>The bodies that \<open>SolarSystem\<close> renders\<close>

text \<open>
  The props of each \<open>Planet\<close> element of \<open>SolarSystem\<close>, as functions of the
  component's \<open>isHeliocentric\<close> state. The Sun, Mercury, Venus, Mars, Jupiter and
  Saturn are written twice in the JSX, once per frame; Earth is written once, with
  \<^verbatim>\<open>orbitRadius={isHeliocentric ? 10 : 0}\<close>.
\<close>

definition sunProps :: "bool \<Rightarrow> PlanetProps" where
  "sunProps h =
     \<lparr>position = Vector3 0 0 0, size_prop = 2, color = ''#FFD700'',
      orbitRadius = (if \<not> h then 30 else 0), orbitSpeed = 0.02,
      isHeliocentric = h, name = ''Sun''\<rparr>"

definition mercuryProps :: "bool \<Rightarrow> PlanetProps" where
  "mercuryProps h =
     \<lparr>position = Vector3 3.9 0 0, size_prop = 0.4, color = ''#A0522D'',
      orbitRadius = 3.9, orbitSpeed = 0.047,
      isHeliocentric = h, name = ''Mercury''\<rparr>"

definition venusProps :: "bool \<Rightarrow> PlanetProps" where
  "venusProps h =
     \<lparr>position = Vector3 7.2 0 0, size_prop = 0.9, color = ''#DEB887'',
      orbitRadius = 7.2, orbitSpeed = 0.035,
      isHeliocentric = h, name = ''Venus''\<rparr>"

definition earthProps :: "bool \<Rightarrow> PlanetProps" where
  "earthProps h =
     \<lparr>position = (if h then Vector3 10 0 0 else Vector3 0 0 0), size_prop = 1,
      color = ''#4169E1'',
      orbitRadius = (if h then 10 else 0), orbitSpeed = 0.029,
      isHeliocentric = h, name = ''Earth''\<rparr>"

definition moonProps :: "bool \<Rightarrow> PlanetProps" where
  "moonProps h =
     \<lparr>position = Vector3 0 0 0, size_prop = 0.27, color = ''#FFFFFF'',
      orbitRadius = 2, orbitSpeed = 0.07,
      isHeliocentric = h, name = ''Moon''\<rparr>"

definition marsProps :: "bool \<Rightarrow> PlanetProps" where
  "marsProps h =
     \<lparr>position = (if \<not> h then Vector3 35.2 0 0 else Vector3 15.2 0 0), size_prop = 0.5,
      color = ''#FF4500'',
      orbitRadius = (if \<not> h then 40.2 else 15.2), orbitSpeed = 0.024,
      isHeliocentric = h, name = ''Mars''\<rparr>"

definition jupiterProps :: "bool \<Rightarrow> PlanetProps" where
  "jupiterProps h =
     \<lparr>position = Vector3 52 0 0, size_prop = 2, color = ''#DEB887'',
      orbitRadius = 52, orbitSpeed = 0.013,
      isHeliocentric = h, name = ''Jupiter''\<rparr>"

definition saturnProps :: "bool \<Rightarrow> PlanetProps" where
  "saturnProps h =
     \<lparr>position = Vector3 95.8 0 0, size_prop = 1.8, color = ''#FFE4B5'',
      orbitRadius = 95.8, orbitSpeed = 0.009,
      isHeliocentric = h, name = ''Saturn''\<rparr>"

definition uranusProps :: "bool \<Rightarrow> PlanetProps" where
  "uranusProps h =
     \<lparr>position = Vector3 192 0 0, size_prop = 1.4, color = ''#87CEEB'',
      orbitRadius = 192, orbitSpeed = 0.006,
      isHeliocentric = h, name = ''Uranus''\<rparr>"

definition neptuneProps :: "bool \<Rightarrow> PlanetProps" where
  "neptuneProps h =
     \<lparr>position = Vector3 300.5 0 0, size_prop = 1.3, color = ''#1E90FF'',
      orbitRadius = 300.5, orbitSpeed = 0.005,
      isHeliocentric = h, name = ''Neptune''\<rparr>"

definition plutoProps :: "bool \<Rightarrow> PlanetProps" where
  "plutoProps h =
     \<lparr>position = Vector3 394.8 0 0, size_prop = 2, color = ''#8B4513'',
      orbitRadius = 394.8, orbitSpeed = 0.004,
      isHeliocentric = h, name = ''Pluto''\<rparr>"

section \<open>The \<open>SolarSystem\<close> component: frame toggle and mounted bodies\<close>

record InfoData =
  title :: string
  summary :: string
  opengraphLink :: string
  opengraphImage :: string

text \<open>
  The three state cells of \<open>SolarSystem\<close>:
  \<^verbatim>\<open>
  const [isHeliocentric, setIsHeliocentric] = useState(true);
  const [selectedObjectInfo, setSelectedObjectInfo] = useState<InfoData | null>(null);
  const [animTrigger, setAnimTrigger] = useState(false)
  \<close>
  The first is named \<open>isHeliocentricState\<close> here, apart from the prop of \<open>Planet\<close>.
\<close>

record SolarSystemState =
  isHeliocentricState :: bool
  selectedObjectInfo :: "InfoData option"
  animTrigger :: bool

text \<open>
  The click handler of the toggle button:
  \<^verbatim>\<open>
  onClick={() => {
    setIsHeliocentric(!isHeliocentric);
    setAnimTrigger((prev) => !prev)
    setSelectedObjectInfo(null);
  }}
  \<close>
\<close>

definition toggleOnClick :: "SolarSystemState \<Rightarrow> SolarSystemState" where
  "toggleOnClick st =
     st\<lparr>isHeliocentricState := \<not> isHeliocentricState st,
        animTrigger := \<not> animTrigger st,
        selectedObjectInfo := None\<rparr>"

text \<open>
  The JSX elements that carry bodies: a \<open>Planet\<close> with its props and children, drei's
  \<open>Trail\<close> around one child, an \<open>OrbitRing\<close> (it holds no angle; only its
  \<open>planetName\<close> is kept), and \<open>Absent\<close> for the \<open>false\<close> that
  \<^verbatim>\<open>{isHeliocentric && (...)}\<close> leaves in a child slot.
\<close>

datatype element =
    Planet PlanetProps "element list"
  | Trail element
  | OrbitRing string
  | Absent

text \<open>
  The body slots among the children of \<open>Canvas\<close>, in source order, for the frame
  \<open>h\<close>. Sun, Mercury, Venus, Mars, Jupiter and Saturn are written as
  \<^verbatim>\<open>{!isHeliocentric ? (<Trail ...><Planet ... /></Trail>) : (<Planet ... />)}\<close>,
  Earth as one \<open>Planet\<close> with the Moon and the Moon's ring as children, and Uranus,
  Neptune and Pluto as \<^verbatim>\<open>{isHeliocentric && (<Planet ... />)}\<close>. The lights, the stars,
  the camera transition and the top-level orbit rings hold no body and are left out.
\<close>

definition bodies :: "bool \<Rightarrow> element list" where
  "bodies h =
     [(if \<not> h then Trail (Planet (sunProps h) []) else Planet (sunProps h) []),
      (if \<not> h then Trail (Planet (mercuryProps h) []) else Planet (mercuryProps h) []),
      (if \<not> h then Trail (Planet (venusProps h) []) else Planet (venusProps h) []),
      Planet (earthProps h) [Planet (moonProps h) [], OrbitRing ''Moon''],
      (if \<not> h then Trail (Planet (marsProps h) []) else Planet (marsProps h) []),
      (if \<not> h then Trail (Planet (jupiterProps h) []) else Planet (jupiterProps h) []),
      (if \<not> h then Trail (Planet (saturnProps h) []) else Planet (saturnProps h) []),
      (if h then Planet (uranusProps h) [] else Absent),
      (if h then Planet (neptuneProps h) [] else Absent),
      (if h then Planet (plutoProps h) [] else Absent)]"

text \<open>The mounted counterpart of an element: a \<open>Planet\<close> instance owns a state.\<close>

datatype "instance" =
    PlanetI PlanetProps PlanetState "instance list"
  | TrailI "instance"
  | OrbitRingI string
  | AbsentI

fun mountElement :: "element \<Rightarrow> instance" where
  "mountElement (Planet p kids) = PlanetI p (mount p) (map mountElement kids)"
| "mountElement (Trail e) = TrailI (mountElement e)"
| "mountElement (OrbitRing n) = OrbitRingI n"
| "mountElement Absent = AbsentI"

text \<open>
  \<open>Planet\<close> returns its group inside a \<open>Trail\<close> exactly when
  \<^verbatim>\<open>!isHeliocentric && name !== "Earth" && name !== "Moon"\<close>, and bare otherwise.
\<close>

definition inTrail :: "PlanetProps \<Rightarrow> bool" where
  "inTrail p \<longleftrightarrow> \<not> isHeliocentric p \<and> name p \<noteq> ''Earth'' \<and> name p \<noteq> ''Moon''"

text \<open>
  A \<open>Planet\<close> that stays mounted while its props change from \<open>p\<close> to \<open>p'\<close> keeps
  its \<open>angle\<close>. Its group and meshes stay the same objects while the returned tree
  keeps its shape; the renderer then writes the group's \<open>position\<close> prop only if its
  value changed. If the returned tree changes shape, the group and the meshes are
  created anew.
\<close>

definition rerender :: "PlanetProps \<Rightarrow> PlanetProps \<Rightarrow> PlanetState \<Rightarrow> PlanetState" where
  "rerender p p' s =
     (if inTrail p' = inTrail p then
        (if groupPositionProp p' = groupPositionProp p then s
         else s\<lparr>groupRef := map_option (\<lambda>_. groupPositionProp p') (groupRef s)\<rparr>)
      else s\<lparr>groupRef := Some (groupPositionProp p'), meshRef := Some 0, glowRef := Some 0\<rparr>)"

text \<open>
  React's reconciliation of unkeyed children: a component keeps its state while an
  element of the same type stays in the same child slot; where the type in a slot
  changes, the old subtree is unmounted and the new element is mounted afresh.
\<close>

fun reconcile :: "instance \<Rightarrow> element \<Rightarrow> instance"
  and reconcileChildren :: "instance list \<Rightarrow> element list \<Rightarrow> instance list" where
  "reconcile (PlanetI p s kids) (Planet p' els) =
     PlanetI p' (rerender p p' s) (reconcileChildren kids els)"
| "reconcile (TrailI i) (Trail e) = TrailI (reconcile i e)"
| "reconcile (OrbitRingI n) (OrbitRing n') = OrbitRingI n'"
| "reconcile i e = mountElement e"
| "reconcileChildren (i # rest) (e # es) = reconcile i e # reconcileChildren rest es"
| "reconcileChildren [] es = map mountElement es"
| "reconcileChildren rest [] = []"

text \<open>One rendered frame: every mounted \<open>Planet\<close> runs its frame callback.\<close>

fun frameInstance :: "instance \<Rightarrow> instance" where
  "frameInstance (PlanetI p s kids) = PlanetI p (useFrame p s) (map frameInstance kids)"
| "frameInstance (TrailI i) = TrailI (frameInstance i)"
| "frameInstance (OrbitRingI n) = OrbitRingI n"
| "frameInstance AbsentI = AbsentI"

text \<open>The state of the first mounted \<open>Planet\<close> with a given name, in tree order.\<close>

fun findPlanet :: "string \<Rightarrow> instance \<Rightarrow> PlanetState option"
  and findPlanets :: "string \<Rightarrow> instance list \<Rightarrow> PlanetState option" where
  "findPlanet nm (PlanetI p s kids) = (if name p = nm then Some s else findPlanets nm kids)"
| "findPlanet nm (TrailI i) = findPlanet nm i"
| "findPlanet nm (OrbitRingI n) = None"
| "findPlanet nm AbsentI = None"
| "findPlanets nm [] = None"
| "findPlanets nm (i # rest) =
     (case findPlanet nm i of Some s \<Rightarrow> Some s | None \<Rightarrow> findPlanets nm rest)"

text \<open>The element that an instance renders: the instance without its state.\<close>

fun elementOf :: "instance \<Rightarrow> element" where
  "elementOf (PlanetI p s kids) = Planet p (map elementOf kids)"
| "elementOf (TrailI i) = Trail (elementOf i)"
| "elementOf (OrbitRingI n) = OrbitRing n"
| "elementOf AbsentI = Absent"

text \<open>
  The application: the state of \<open>SolarSystem\<close> and the mounted bodies. It starts
  heliocentric with nothing selected; it moves by rendered frames, by clicks on the
  toggle (handler, then re-render of the bodies for the new frame) and by selections
  (\<open>onSelect={setSelectedObjectInfo}\<close>).
\<close>

record App =
  hooks :: SolarSystemState
  canvas :: "instance list"

definition initialApp :: App where
  "initialApp =
     \<lparr>hooks = \<lparr>isHeliocentricState = True, selectedObjectInfo = None, animTrigger = False\<rparr>,
      canvas = map mountElement (bodies True)\<rparr>"

definition frame :: "App \<Rightarrow> App" where
  "frame app = app\<lparr>canvas := map frameInstance (canvas app)\<rparr>"

definition clickToggle :: "App \<Rightarrow> App" where
  "clickToggle app =
     (let st = toggleOnClick (hooks app)
      in \<lparr>hooks = st, canvas = reconcileChildren (canvas app) (bodies (isHeliocentricState st))\<rparr>)"

definition select :: "InfoData option \<Rightarrow> App \<Rightarrow> App" where
  "select info app = app\<lparr>hooks := (hooks app)\<lparr>selectedObjectInfo := info\<rparr>\<rparr>"

inductive reachable :: "App \<Rightarrow> bool" where
  reachable_initial: "reachable initialApp"
| reachable_frame: "reachable app \<Longrightarrow> reachable (frame app)"
| reachable_toggle: "reachable app \<Longrightarrow> reachable (clickToggle app)"
| reachable_select: "reachable app \<Longrightarrow> reachable (select info app)"

definition storedAngle :: "string \<Rightarrow> App \<Rightarrow> real option" where
  "storedAngle nm app = map_option angle (findPlanets nm (canvas app))"

text \<open>
  The mounted bodies render the elements of the current frame: the invariant of the
  application.
\<close>

definition rendered :: "App \<Rightarrow> bool" where
  "rendered app \<longleftrightarrow> map elementOf (canvas app) = bodies (isHeliocentricState (hooks app))"

section \<open>The frame prop at run time\<close>

text \<open>
  \<open>isHeliocentric: boolean\<close> is a compile-time type; the compiled callback reads the
  prop only in \<^verbatim>\<open>isHeliocentric || name === "Earth" || name === "Moon"\<close>, which
  applies JavaScript's \<open>ToBoolean\<close> to whatever value arrives. The values below are
  the ones a caller outside the type checker can pass; numbers are reals, so \<open>NaN\<close>
  (which is falsy) has no counterpart.
\<close>

datatype jsval = JSUndefined | JSNull | JSBoolean bool | JSNumber real | JSString string

fun toBoolean :: "jsval \<Rightarrow> bool" where
  "toBoolean JSUndefined = False"
| "toBoolean JSNull = False"
| "toBoolean (JSBoolean b) = b"
| "toBoolean (JSNumber n) = (n \<noteq> 0)"
| "toBoolean (JSString s) = (s \<noteq> [])"

definition useFrame_untyped :: "jsval \<Rightarrow> PlanetProps \<Rightarrow> PlanetState \<Rightarrow> PlanetState" where
  "useFrame_untyped v p s = useFrame (p\<lparr>isHeliocentric := toBoolean v\<rparr>) s"

section \<open>Auxiliary facts\<close>

lemma useFrame_attached:
  assumes "groupRef s = Some g" "meshRef s = Some m" "glowRef s = Some w"
  shows "useFrame p s = s\<lparr>angle := angle s + orbitSpeed p,
            groupRef := Some (newPosition p (angle s + orbitSpeed p) g),
            meshRef := Some (m + 0.005), glowRef := Some (w + 0.005)\<rparr>"
  using assms by (simp add: useFrame_def Let_def)

lemma epicycle_norm_sq:
  fixes r e a b :: real
  shows "(r * cos a + e * cos b)\<^sup>2 + (r * sin a + e * sin b)\<^sup>2
         = r\<^sup>2 + e\<^sup>2 + 2 * r * e * cos (a - b)"
proof -
  have alg: "(r * ca + e * cb)\<^sup>2 + (r * sa + e * sb)\<^sup>2
        = r\<^sup>2 * (sa\<^sup>2 + ca\<^sup>2) + e\<^sup>2 * (sb\<^sup>2 + cb\<^sup>2)
          + 2 * r * e * (ca * cb + sa * sb)" for ca cb sa sb :: real
    by (simp add: power2_eq_square algebra_simps)
  show ?thesis
    unfolding alg [of "cos a" "cos b" "sin a" "sin b"] by (simp add: cos_diff)
qed

lemma vlength_epicycle:
  "vlength (Vector3 (r * cos a + e * cos b) 0 (r * sin a + e * sin b))
   = sqrt (r\<^sup>2 + e\<^sup>2 + 2 * r * e * cos (a - b))"
  by (simp add: vlength_def epicycle_norm_sq)

lemma vlength_circle: "0 \<le> r \<Longrightarrow> vlength (Vector3 (r * cos a) 0 (r * sin a)) = r"
  using vlength_epicycle [of r a 0 0] by simp

lemma epicycle_bounds:
  fixes r e c :: real
  assumes "0 \<le> e" "e \<le> r" "- 1 \<le> c" "c \<le> 1"
  shows "r - e \<le> sqrt (r\<^sup>2 + e\<^sup>2 + 2 * r * e * c)"
    and "sqrt (r\<^sup>2 + e\<^sup>2 + 2 * r * e * c) \<le> r + e"
proof -
  have re: "0 \<le> r * e" using assms by simp
  have "r * e * c \<le> r * e * 1" using re assms(4) by (rule mult_left_mono [rotated]) 
  moreover have "r * e * (- 1) \<le> r * e * c" using re assms(3) by (rule mult_left_mono [rotated])
  ultimately have lo: "(r - e)\<^sup>2 \<le> r\<^sup>2 + e\<^sup>2 + 2 * r * e * c"
    and hi: "r\<^sup>2 + e\<^sup>2 + 2 * r * e * c \<le> (r + e)\<^sup>2"
    by (simp_all add: power2_eq_square algebra_simps)
  from lo show "r - e \<le> sqrt (r\<^sup>2 + e\<^sup>2 + 2 * r * e * c)"
    by (rule real_le_rsqrt)
  show "sqrt (r\<^sup>2 + e\<^sup>2 + 2 * r * e * c) \<le> r + e"
  proof (rule real_le_lsqrt)
    show "0 \<le> r + e" using assms by simp
    show "r\<^sup>2 + e\<^sup>2 + 2 * r * e * c \<le> (r + e)\<^sup>2" by (rule hi)
  qed
qed

lemma epicycle_on_deferent:
  fixes r f c :: real
  assumes "0 < r" "0 < f"
  shows "sqrt (r\<^sup>2 + (r * f)\<^sup>2 + 2 * r * (r * f) * c) = r \<longleftrightarrow> c = - f / 2"
proof -
  have "sqrt (r\<^sup>2 + (r * f)\<^sup>2 + 2 * r * (r * f) * c) = r
        \<longleftrightarrow> r\<^sup>2 + (r * f)\<^sup>2 + 2 * r * (r * f) * c = r\<^sup>2"
  proof
    assume "sqrt (r\<^sup>2 + (r * f)\<^sup>2 + 2 * r * (r * f) * c) = r"
    then have "(sqrt (r\<^sup>2 + (r * f)\<^sup>2 + 2 * r * (r * f) * c))\<^sup>2 = r\<^sup>2" by simp
    moreover have "0 \<le> r\<^sup>2 + (r * f)\<^sup>2 + 2 * r * (r * f) * c"
    proof (rule ccontr)
      assume "\<not> 0 \<le> r\<^sup>2 + (r * f)\<^sup>2 + 2 * r * (r * f) * c"
      then have "sqrt (r\<^sup>2 + (r * f)\<^sup>2 + 2 * r * (r * f) * c) < 0" by simp
      with \<open>sqrt (r\<^sup>2 + (r * f)\<^sup>2 + 2 * r * (r * f) * c) = r\<close> assms(1) show False by simp
    qed
    ultimately show "r\<^sup>2 + (r * f)\<^sup>2 + 2 * r * (r * f) * c = r\<^sup>2" by simp
  next
    assume "r\<^sup>2 + (r * f)\<^sup>2 + 2 * r * (r * f) * c = r\<^sup>2"
    then have "sqrt (r\<^sup>2 + (r * f)\<^sup>2 + 2 * r * (r * f) * c) = sqrt (r\<^sup>2)"
      by (simp only:)
    then show "sqrt (r\<^sup>2 + (r * f)\<^sup>2 + 2 * r * (r * f) * c) = r"
      using assms(1) by simp
  qed
  also have "\<dots> \<longleftrightarrow> (r\<^sup>2 * f) * (f + 2 * c) = 0"
    by (simp add: power2_eq_square algebra_simps)
  also have "\<dots> \<longleftrightarrow> c = - f / 2"
    using assms by auto
  finally show ?thesis .
qed

lemma cos_small_pos: "0 \<le> x \<Longrightarrow> x < 1 \<Longrightarrow> 0 < cos (x::real)"
proof -
  assume "0 \<le> x" "x < 1"
  moreover have "1 \<le> pi / 2" using pi_ge_two by simp
  ultimately show ?thesis by (intro cos_gt_zero_pi) auto
qed

lemma newPosition_geocentric:
  assumes "0 < orbitRadius p" and "\<not> isHeliocentric p"
    and "name p \<noteq> ''Earth''" and "name p \<noteq> ''Moon''"
  shows "newPosition p a g
         = Vector3 (orbitRadius p * cos a + orbitRadius p * 0.05 * cos (- 1.5 * a)) (vy g)
                   (orbitRadius p * sin a + orbitRadius p * 0.05 * sin (- 1.5 * a))"
proof -
  have eq: "- 1.5 * a = - a * 1.5" by simp
  show ?thesis
    unfolding eq using assms by (simp add: newPosition_def Let_def mult.commute)
qed

lemma vlength_epicycle_bounds:
  assumes "0 \<le> e" and "e \<le> r"
  shows "r - e \<le> vlength (Vector3 (r * cos a + e * cos b) 0 (r * sin a + e * sin b))"
    and "vlength (Vector3 (r * cos a + e * cos b) 0 (r * sin a + e * sin b)) \<le> r + e"
  unfolding vlength_epicycle
  using epicycle_bounds [OF assms, of "cos (a - b)"] by simp_all

lemma vlength_epicycle_on_deferent:
  assumes "0 < r" and "0 < f"
  shows "vlength (Vector3 (r * cos a + r * f * cos b) 0 (r * sin a + r * f * sin b)) = r
         \<longleftrightarrow> cos (a - b) = - f / 2"
  unfolding vlength_epicycle
  using epicycle_on_deferent [OF assms, of "cos (a - b)"] by simp

subsection \<open>The ring curve\<close>



lemma getPoint_ring:
  "getPoint (ringCurve r) t
   = Vector3 (r * cos (2 * Math_PI * t) + r * 0.1 * cos (- 2 * (2 * Math_PI * t))) 0
             (r * sin (2 * Math_PI * t) + r * 0.1 * sin (- 2 * (2 * Math_PI * t)))"
proof -
  have eq: "t * Math_PI * 2 = 2 * Math_PI * t" by simp
  show ?thesis
    unfolding getPoint_def ringCurve_def newRetrogradeCurve_def Let_def eq
    by (simp add: mult.commute)
qed




subsection \<open>Bounds on sine and cosine near zero\<close>

lemma sin_approx:
  fixes x :: real
  shows "\<bar>sin x - (x - x ^ 3 / 6)\<bar> \<le> x ^ 4 / 24"
proof -
  have "(\<Sum>m<4. sin_coeff m * x ^ m)
      = sin_coeff 0 * x ^ 0 + sin_coeff 1 * x ^ 1 + sin_coeff 2 * x ^ 2 + sin_coeff 3 * x ^ 3"
    by (simp add: eval_nat_numeral)
  moreover have "sin_coeff 1 = 1" "sin_coeff 2 = 0" "sin_coeff 3 = - 1 / 6"
    by (simp_all add: sin_coeff_def fact_numeral)
  ultimately have s: "(\<Sum>m<4. sin_coeff m * x ^ m) = x - x ^ 3 / 6" by simp
  have f: "inverse (fact 4) = (1 / 24 :: real)" by (simp add: fact_numeral)
  have p: "\<bar>x\<bar> ^ 4 = x ^ 4" by simp
  have "\<bar>sin x - (x - x ^ 3 / 6)\<bar> \<le> 1 / 24 * x ^ 4"
    using Maclaurin_sin_bound [of x 4] unfolding s f p .
  then show ?thesis by simp
qed

lemma sin_lower: "x - x ^ 3 / 6 - x ^ 4 / 24 \<le> sin (x::real)"
  using sin_approx [of x] unfolding abs_le_iff by linarith

lemma sin_upper: "sin (x::real) \<le> x - x ^ 3 / 6 + x ^ 4 / 24"
  using sin_approx [of x] unfolding abs_le_iff by linarith

lemma cos_lower: "1 - x\<^sup>2 / 2 \<le> cos (x::real)"
proof -
  have "\<bar>sin (x / 2)\<bar> \<le> \<bar>x / 2\<bar>" by (rule abs_sin_x_le_abs_x)
  then have "(sin (x / 2))\<^sup>2 \<le> (x / 2)\<^sup>2" by (simp only: abs_le_square_iff)
  moreover have "cos x = 1 - 2 * (sin (x / 2))\<^sup>2"
    using cos_double_sin [of "x / 2"] by simp
  ultimately show ?thesis by (simp add: power2_eq_square)
qed

lemma cos_upper:
  fixes x l :: real
  assumes "0 \<le> l" and "l \<le> sin (x / 2)"
  shows "cos x \<le> 1 - 2 * l\<^sup>2"
proof -
  have "l\<^sup>2 \<le> (sin (x / 2))\<^sup>2" using assms by (rule power_mono [rotated])
  moreover have "cos x = 1 - 2 * (sin (x / 2))\<^sup>2"
    using cos_double_sin [of "x / 2"] by simp
  ultimately show ?thesis by simp
qed

lemma sin_29: "0.28995 < 10 * sin (0.029::real)" "10 * sin (0.029::real) < 0.28997"
proof -
  have "(0.029::real) - 0.029 ^ 3 / 6 - 0.029 ^ 4 / 24 \<le> sin 0.029"
    by (rule sin_lower)
  moreover have "(0.028995::real) < 0.029 - 0.029 ^ 3 / 6 - 0.029 ^ 4 / 24"
    by (simp add: eval_nat_numeral)
  ultimately show "0.28995 < 10 * sin (0.029::real)" by simp
  have "sin (0.029::real) \<le> 0.029 - 0.029 ^ 3 / 6 + 0.029 ^ 4 / 24"
    by (rule sin_upper)
  moreover have "(0.029::real) - 0.029 ^ 3 / 6 + 0.029 ^ 4 / 24 < 0.028997"
    by (simp add: eval_nat_numeral)
  ultimately show "10 * sin (0.029::real) < 0.28997" by simp
qed

lemma cos_29: "9.99579 < 10 * cos (0.029::real)" "10 * cos (0.029::real) < 9.9958"
proof -
  have "1 - (0.029::real)\<^sup>2 / 2 \<le> cos 0.029" by (rule cos_lower)
  moreover have "(0.999579::real) < 1 - 0.029\<^sup>2 / 2" by (simp add: eval_nat_numeral)
  ultimately show "9.99579 < 10 * cos (0.029::real)" by simp
  have "(0.0145::real) - 0.0145 ^ 3 / 6 - 0.0145 ^ 4 / 24 \<le> sin 0.0145"
    by (rule sin_lower)
  moreover have "(0.014499::real) < 0.0145 - 0.0145 ^ 3 / 6 - 0.0145 ^ 4 / 24"
    by (simp add: eval_nat_numeral)
  ultimately have "(0.014499::real) \<le> sin (0.029 / 2)" by simp
  then have "cos (0.029::real) \<le> 1 - 2 * 0.014499\<^sup>2"
    by (intro cos_upper) simp_all
  moreover have "1 - 2 * (0.014499::real)\<^sup>2 < 0.99958" by (simp add: eval_nat_numeral)
  ultimately show "10 * cos (0.029::real) < 9.9958" by simp
qed

subsection \<open>\<open>Math.PI\<close> against \<open>pi\<close>: Machin's formula\<close>







subsection \<open>The ends of the ring curve\<close>












subsection \<open>The mounted tree\<close>

lemma elementOf_mountElement: "elementOf (mountElement e) = e"
  by (induction e) (simp_all add: map_idI)

lemma elementOf_reconcile:
  "elementOf (reconcile i e) = e"
  "map elementOf (reconcileChildren rest es) = es"
  by (induction i e and rest es rule: reconcile_reconcileChildren.induct)
     (simp_all add: elementOf_mountElement map_idI)

lemma elementOf_frameInstance: "elementOf (frameInstance i) = elementOf i"
  by (induction i) simp_all


lemma reachable_rendered: "reachable app \<Longrightarrow> rendered app"
proof (induction rule: reachable.induct)
  case reachable_initial
  show ?case by (simp add: rendered_def initialApp_def elementOf_mountElement map_idI)
next
  case (reachable_frame app)
  then show ?case by (simp add: rendered_def frame_def elementOf_frameInstance o_def)
next
  case (reachable_toggle app)
  show ?case by (simp add: rendered_def clickToggle_def Let_def elementOf_reconcile)
next
  case (reachable_select app info)
  then show ?case by (simp add: rendered_def select_def)
qed

lemma elementOf_Planet:
  "elementOf i = Planet p es \<longleftrightarrow> (\<exists>s kids. i = PlanetI p s kids \<and> map elementOf kids = es)"
  by (cases i) auto

lemma elementOf_Trail: "elementOf i = Trail e \<longleftrightarrow> (\<exists>j. i = TrailI j \<and> elementOf j = e)"
  by (cases i) auto

lemma elementOf_OrbitRing: "elementOf i = OrbitRing n \<longleftrightarrow> i = OrbitRingI n"
  by (cases i) auto

lemma elementOf_Absent: "elementOf i = Absent \<longleftrightarrow> i = AbsentI"
  by (cases i) auto

lemmas elementOf_shape = elementOf_Planet elementOf_Trail elementOf_OrbitRing elementOf_Absent

lemma angle_rerender: "angle (rerender p p' s) = angle s"
  by (simp add: rerender_def)

lemmas body_names = sunProps_def mercuryProps_def venusProps_def earthProps_def moonProps_def
  marsProps_def jupiterProps_def saturnProps_def uranusProps_def neptuneProps_def plutoProps_def

lemma body_name [simp]:
  "name (sunProps h) = ''Sun''" "name (mercuryProps h) = ''Mercury''"
  "name (venusProps h) = ''Venus''" "name (earthProps h) = ''Earth''"
  "name (moonProps h) = ''Moon''" "name (marsProps h) = ''Mars''"
  "name (jupiterProps h) = ''Jupiter''" "name (saturnProps h) = ''Saturn''"
  "name (uranusProps h) = ''Uranus''" "name (neptuneProps h) = ''Neptune''"
  "name (plutoProps h) = ''Pluto''"
  by (simp_all add: body_names)

lemma findPlanet_other:
  assumes "elementOf i = (if c then Trail (Planet p []) else Planet p [])" and "name p \<noteq> nm"
  shows "findPlanet nm i = None"
  using assms by (cases c) (auto simp add: elementOf_shape)

lemma findPlanet_earth:
  assumes "elementOf i = Planet (earthProps h) [Planet (moonProps h) [], OrbitRing ''Moon'']"
  shows "\<exists>sE sM. findPlanet ''Earth'' i = Some sE \<and> findPlanet ''Moon'' i = Some sM \<and>
           findPlanet ''Earth'' (reconcile i (Planet (earthProps h') [Planet (moonProps h') [], OrbitRing ''Moon'']))
             = Some (rerender (earthProps h) (earthProps h') sE) \<and>
           findPlanet ''Moon'' (reconcile i (Planet (earthProps h') [Planet (moonProps h') [], OrbitRing ''Moon'']))
             = Some (rerender (moonProps h) (moonProps h') sM)"
proof -
  from assms obtain sE sM where
    "i = PlanetI (earthProps h) sE [PlanetI (moonProps h) sM [], OrbitRingI ''Moon'']"
    by (auto simp add: elementOf_shape)
  then show ?thesis by simp
qed

lemma earth_moon_kept:
  assumes "map elementOf t = bodies h" and "nm = ''Earth'' \<or> nm = ''Moon''"
  shows "map_option angle (findPlanets nm (reconcileChildren t (bodies (\<not> h))))
         = map_option angle (findPlanets nm t) \<and> findPlanets nm t \<noteq> None"
proof -
  from assms(1) obtain i0 i1 i2 i3 rest where t: "t = i0 # i1 # i2 # i3 # rest"
    and e0: "elementOf i0 = (if \<not> h then Trail (Planet (sunProps h) []) else Planet (sunProps h) [])"
    and e1: "elementOf i1 = (if \<not> h then Trail (Planet (mercuryProps h) []) else Planet (mercuryProps h) [])"
    and e2: "elementOf i2 = (if \<not> h then Trail (Planet (venusProps h) []) else Planet (venusProps h) [])"
    and e3: "elementOf i3 = Planet (earthProps h) [Planet (moonProps h) [], OrbitRing ''Moon'']"
    unfolding bodies_def map_eq_Cons_conv by blast
  define e0' where "e0' = (if \<not> \<not> h then Trail (Planet (sunProps (\<not> h)) []) else Planet (sunProps (\<not> h)) [])"
  define e1' where "e1' = (if \<not> \<not> h then Trail (Planet (mercuryProps (\<not> h)) []) else Planet (mercuryProps (\<not> h)) [])"
  define e2' where "e2' = (if \<not> \<not> h then Trail (Planet (venusProps (\<not> h)) []) else Planet (venusProps (\<not> h)) [])"
  define e3' where "e3' = Planet (earthProps (\<not> h)) [Planet (moonProps (\<not> h)) [], OrbitRing ''Moon'']"
  obtain rest' where r: "reconcileChildren t (bodies (\<not> h))
      = reconcile i0 e0' # reconcile i1 e1' # reconcile i2 e2' # reconcile i3 e3' # rest'"
    unfolding t bodies_def e0'_def e1'_def e2'_def e3'_def by simp
  have nm: "name (sunProps h) \<noteq> nm" "name (mercuryProps h) \<noteq> nm" "name (venusProps h) \<noteq> nm"
    "name (sunProps (\<not> h)) \<noteq> nm" "name (mercuryProps (\<not> h)) \<noteq> nm" "name (venusProps (\<not> h)) \<noteq> nm"
    using assms(2) by auto
  have old: "findPlanet nm i0 = None" "findPlanet nm i1 = None" "findPlanet nm i2 = None"
    by (rule findPlanet_other [OF e0 nm(1)], rule findPlanet_other [OF e1 nm(2)],
        rule findPlanet_other [OF e2 nm(3)])
  have new: "findPlanet nm (reconcile i0 e0') = None" "findPlanet nm (reconcile i1 e1') = None"
    "findPlanet nm (reconcile i2 e2') = None"
    by (rule findPlanet_other [OF elementOf_reconcile(1) [of i0 e0', unfolded e0'_def] nm(4),
          folded e0'_def],
        rule findPlanet_other [OF elementOf_reconcile(1) [of i1 e1', unfolded e1'_def] nm(5),
          folded e1'_def],
        rule findPlanet_other [OF elementOf_reconcile(1) [of i2 e2', unfolded e2'_def] nm(6),
          folded e2'_def])
  from findPlanet_earth [OF e3, of "\<not> h"] obtain sE sM where
    "findPlanet ''Earth'' i3 = Some sE" "findPlanet ''Moon'' i3 = Some sM"
    "findPlanet ''Earth'' (reconcile i3 e3') = Some (rerender (earthProps h) (earthProps (\<not> h)) sE)"
    "findPlanet ''Moon'' (reconcile i3 e3') = Some (rerender (moonProps h) (moonProps (\<not> h)) sM)"
    unfolding e3'_def by blast
  note found = this
  have after: "findPlanets nm (reconcileChildren t (bodies (\<not> h))) = findPlanet nm (reconcile i3 e3')"
    if "findPlanet nm (reconcile i3 e3') \<noteq> None"
    unfolding r using that by (auto simp add: new)
  have before: "findPlanets nm t = findPlanet nm i3" if "findPlanet nm i3 \<noteq> None"
    unfolding t using that by (auto simp add: old)
  from assms(2) show ?thesis
  proof
    assume "nm = ''Earth''"
    with found(1,3) before after show ?thesis by (simp add: angle_rerender)
  next
    assume "nm = ''Moon''"
    with found(2,4) before after show ?thesis by (simp add: angle_rerender)
  qed
qed

lemma first_frame_canvas:
  "canvas (frame initialApp)
   = [PlanetI (sunProps True) (useFrame (sunProps True) (mount (sunProps True))) [],
      PlanetI (mercuryProps True) (useFrame (mercuryProps True) (mount (mercuryProps True))) [],
      PlanetI (venusProps True) (useFrame (venusProps True) (mount (venusProps True))) [],
      PlanetI (earthProps True) (useFrame (earthProps True) (mount (earthProps True)))
        [PlanetI (moonProps True) (useFrame (moonProps True) (mount (moonProps True))) [],
         OrbitRingI ''Moon''],
      PlanetI (marsProps True) (useFrame (marsProps True) (mount (marsProps True))) [],
      PlanetI (jupiterProps True) (useFrame (jupiterProps True) (mount (jupiterProps True))) [],
      PlanetI (saturnProps True) (useFrame (saturnProps True) (mount (saturnProps True))) [],
      PlanetI (uranusProps True) (useFrame (uranusProps True) (mount (uranusProps True))) [],
      PlanetI (neptuneProps True) (useFrame (neptuneProps True) (mount (neptuneProps True))) [],
      PlanetI (plutoProps True) (useFrame (plutoProps True) (mount (plutoProps True))) []]"
  by (simp add: frame_def initialApp_def bodies_def)

lemma angle_first_frame: "angle (useFrame p (mount p)) = orbitSpeed p"
  by (simp add: useFrame_def mount_def Let_def)

section \<open>Properties of the orbit evaluator\<close>

text \<open>
  In the theorems below a state \<open>s\<close> with the three refs attached is any state a frame
  callback can meet after the component has been committed; \<open>vy g = 0\<close> is the height
  that \<^const>\<open>mount\<close> gives the group of an orbiting body, which the orbiting branches
  never write.
\<close>

text \<open>
  C5: a body with orbital radius \<open>r > 0\<close> that is evaluated in the heliocentric frame is
  placed at \<open>(r cos a, 0, r sin a)\<close>, where \<open>a\<close> is the advanced angle; that point is
  at distance exactly \<open>r\<close> from the origin and its \<open>y\<close> coordinate is \<open>0\<close>.
\<close>

theorem heliocentric_circular_orbit:
  assumes "groupRef s = Some g" and "meshRef s = Some m" and "glowRef s = Some w"
    and "vy g = 0" and "0 < orbitRadius p" and "isHeliocentric p"
  shows "let a = angle s + orbitSpeed p; r = orbitRadius p in
           angle (useFrame p s) = a \<and>
           groupRef (useFrame p s) = Some (Vector3 (r * cos a) 0 (r * sin a)) \<and>
           vlength (Vector3 (r * cos a) 0 (r * sin a)) = r \<and>
           vy (Vector3 (r * cos a) 0 (r * sin a)) = 0"
  using assms
  by (simp add: useFrame_attached newPosition_def Let_def vlength_circle mult.commute)

theorem heliocentric_circular_orbit_witness:
  "groupRef (mount (earthProps True)) = Some (Vector3 10 0 0) \<and>
   meshRef (mount (earthProps True)) = Some 0 \<and>
   glowRef (mount (earthProps True)) = Some 0 \<and>
   vy (Vector3 10 0 0) = 0 \<and>
   0 < orbitRadius (earthProps True) \<and> isHeliocentric (earthProps True) \<and>
   angle (useFrame (earthProps True) (mount (earthProps True))) = 0.029 \<and>
   groupRef (useFrame (earthProps True) (mount (earthProps True)))
     = Some (Vector3 (10 * cos 0.029) 0 (10 * sin 0.029)) \<and>
   vlength (Vector3 (10 * cos 0.029) 0 (10 * sin 0.029)) = 10"
proof -
  have h: "groupRef (mount (earthProps True)) = Some (Vector3 10 0 0)"
    "meshRef (mount (earthProps True)) = Some 0"
    "glowRef (mount (earthProps True)) = Some 0"
    "vy (Vector3 10 0 0) = 0"
    "0 < orbitRadius (earthProps True)" "isHeliocentric (earthProps True)"
    by (simp_all add: mount_def groupPositionProp_def earthProps_def)
  from heliocentric_circular_orbit [OF h] h show ?thesis
    by (simp add: mount_def groupPositionProp_def earthProps_def Let_def)
qed

text \<open>
  C6: for Earth and for the Moon the callback returns the same state (the same new angle,
  the same position) whether the frame is heliocentric or geocentric, for the same stored
  state and the same remaining props.
\<close>

theorem exempt_frame_invariance:
  assumes "name p = ''Earth'' \<or> name p = ''Moon''"
  shows "useFrame (p\<lparr>isHeliocentric := True\<rparr>) s = useFrame (p\<lparr>isHeliocentric := False\<rparr>) s"
  using assms by (auto simp add: useFrame_def newPosition_def Let_def split: option.splits)

theorem exempt_frame_invariance_witness:
  "(name (moonProps True) = ''Earth'' \<or> name (moonProps True) = ''Moon'') \<and>
   useFrame (moonProps True) (mount (moonProps True))
     = useFrame (moonProps False) (mount (moonProps True)) \<and>
   groupRef (useFrame (moonProps False) (mount (moonProps True)))
     = Some (Vector3 (cos 0.07 * 2) 0 (sin 0.07 * 2))"
proof -
  have h: "name (moonProps True) = ''Earth'' \<or> name (moonProps True) = ''Moon''"
    by (simp add: moonProps_def)
  have t: "(moonProps True)\<lparr>isHeliocentric := True\<rparr> = moonProps True"
    and f: "(moonProps True)\<lparr>isHeliocentric := False\<rparr> = moonProps False"
    by (simp_all add: moonProps_def)
  from exempt_frame_invariance [OF h, of "mount (moonProps True)"] h show ?thesis
    unfolding t f by (simp add: useFrame_def newPosition_def mount_def groupPositionProp_def moonProps_def Let_def)
qed

text \<open>
  C7: a body with orbital radius \<open>0\<close> is placed at its configured \<open>position\<close>, whatever
  the stored angle and whatever the frame, and its stored angle still advances by
  \<open>orbitSpeed\<close>.
\<close>

theorem fixed_body:
  assumes "groupRef s = Some g" and "meshRef s = Some m" and "glowRef s = Some w"
    and "orbitRadius p = 0"
  shows "groupRef (useFrame p s) = Some (position p) \<and>
         angle (useFrame p s) = angle s + orbitSpeed p"
  using assms by (simp add: useFrame_attached newPosition_def)

theorem fixed_body_witness:
  "groupRef (mount (sunProps True)) = Some (Vector3 0 0 0) \<and>
   meshRef (mount (sunProps True)) = Some 0 \<and>
   glowRef (mount (sunProps True)) = Some 0 \<and>
   orbitRadius (sunProps True) = 0 \<and>
   groupRef (useFrame (sunProps True) (mount (sunProps True))) = Some (Vector3 0 0 0) \<and>
   angle (useFrame (sunProps True) (mount (sunProps True))) = 0.02"
proof -
  have h: "groupRef (mount (sunProps True)) = Some (Vector3 0 0 0)"
    "meshRef (mount (sunProps True)) = Some 0"
    "glowRef (mount (sunProps True)) = Some 0"
    "orbitRadius (sunProps True) = 0"
    by (simp_all add: mount_def groupPositionProp_def sunProps_def)
  from fixed_body [OF h] h show ?thesis
    by (simp add: mount_def groupPositionProp_def sunProps_def)
qed

text \<open>
  C1 (as the code has it): a geocentric body with \<open>r > 0\<close> other than Earth and Moon is
  placed at deferent plus epicycle, where the deferent is \<open>(r cos a, 0, r sin a)\<close>, the
  epicycle angle is \<open>-1.5 a\<close> and the epicycle radius is \<open>0.05 r\<close> (not \<open>0.1 r\<close>, which
  is the amplitude of the ring curve only).
\<close>

theorem geocentric_deferent_epicycle:
  assumes "groupRef s = Some g" and "meshRef s = Some m" and "glowRef s = Some w"
    and "vy g = 0" and "0 < orbitRadius p" and "\<not> isHeliocentric p"
    and "name p \<noteq> ''Earth''" and "name p \<noteq> ''Moon''"
  shows "let a = angle s + orbitSpeed p; r = orbitRadius p in
           angle (useFrame p s) = a \<and>
           groupRef (useFrame p s)
             = Some (Vector3 (r * cos a + 0.05 * r * cos (- 1.5 * a)) 0
                             (r * sin a + 0.05 * r * sin (- 1.5 * a)))"
proof -
  define a where "a = angle s + orbitSpeed p"
  have eq: "- 1.5 * a = - a * 1.5" by simp
  have "newPosition p a g
        = Vector3 (orbitRadius p * cos a + 0.05 * orbitRadius p * cos (- 1.5 * a)) 0
                  (orbitRadius p * sin a + 0.05 * orbitRadius p * sin (- 1.5 * a))"
    unfolding eq using assms(4-8) by (simp add: newPosition_def Let_def mult.commute)
  then show ?thesis
    using assms(1-3) unfolding a_def by (simp add: useFrame_attached Let_def)
qed

theorem geocentric_deferent_epicycle_witness:
  "groupRef (mount (sunProps False)) = Some (Vector3 30 0 0) \<and>
   meshRef (mount (sunProps False)) = Some 0 \<and>
   glowRef (mount (sunProps False)) = Some 0 \<and>
   vy (Vector3 30 0 0) = 0 \<and>
   0 < orbitRadius (sunProps False) \<and> \<not> isHeliocentric (sunProps False) \<and>
   name (sunProps False) \<noteq> ''Earth'' \<and> name (sunProps False) \<noteq> ''Moon'' \<and>
   angle (useFrame (sunProps False) (mount (sunProps False))) = 0.02 \<and>
   groupRef (useFrame (sunProps False) (mount (sunProps False)))
     = Some (Vector3 (30 * cos 0.02 + 1.5 * cos (- 0.03)) 0
                     (30 * sin 0.02 + 1.5 * sin (- 0.03)))"
proof -
  have h: "groupRef (mount (sunProps False)) = Some (Vector3 30 0 0)"
    "meshRef (mount (sunProps False)) = Some 0"
    "glowRef (mount (sunProps False)) = Some 0"
    "vy (Vector3 30 0 0) = 0"
    "0 < orbitRadius (sunProps False)" "\<not> isHeliocentric (sunProps False)"
    "name (sunProps False) \<noteq> ''Earth''" "name (sunProps False) \<noteq> ''Moon''"
    by (simp_all add: mount_def groupPositionProp_def sunProps_def)
  from geocentric_deferent_epicycle [OF h] h show ?thesis
    by (simp add: mount_def groupPositionProp_def sunProps_def Let_def)
qed

text \<open>
  C1 as stated, with epicycle radius \<open>0.1 r\<close>, fails on the first frame of the geocentric
  Sun (\<open>r = 30\<close>, speed \<open>0.02\<close>): the \<open>x\<close> coordinate is \<open>30 cos 0.02 + 1.5 cos 0.03\<close>,
  not \<open>30 cos 0.02 + 3 cos 0.03\<close>.
\<close>

theorem geocentric_amplitude_counterexample:
  "groupRef (useFrame (sunProps False) (mount (sunProps False)))
     \<noteq> Some (Vector3 (30 * cos 0.02 + 0.1 * 30 * cos (- 1.5 * 0.02)) 0
                      (30 * sin 0.02 + 0.1 * 30 * sin (- 1.5 * 0.02)))"
proof -
  have "0 < cos (0.03::real)" by (rule cos_small_pos) simp_all
  then show ?thesis
    by (simp add: useFrame_def newPosition_def mount_def groupPositionProp_def sunProps_def Let_def)
qed

text \<open>
  C2 (as the code has it): a heliocentric body with radius \<open>10\<close> and speed \<open>0.029\<close> that
  starts at angle \<open>0\<close> has angle \<open>0.029\<close> after one frame and sits at
  \<open>(10 cos 0.029, 0, 10 sin 0.029)\<close>, which is \<open>(9.9958, 0, 0.2899)\<close> to within
  \<open>0.0001\<close> in each coordinate.
\<close>

theorem earth_first_tick:
  assumes "groupRef s = Some g" and "meshRef s = Some m" and "glowRef s = Some w"
    and "vy g = 0" and "angle s = 0"
    and "orbitRadius p = 10" and "orbitSpeed p = 0.029" and "isHeliocentric p"
  shows "angle (useFrame p s) = 0.029 \<and>
         groupRef (useFrame p s) = Some (Vector3 (10 * cos 0.029) 0 (10 * sin 0.029)) \<and>
         \<bar>10 * cos 0.029 - 9.9958\<bar> < (0.0001::real) \<and>
         \<bar>10 * sin 0.029 - 0.2899\<bar> < (0.0001::real)"
proof -
  have a: "angle s + orbitSpeed p = 0.029" using assms(5,7) by simp
  have "angle (useFrame p s) = 0.029"
    and "groupRef (useFrame p s) = Some (Vector3 (10 * cos 0.029) 0 (10 * sin 0.029))"
    unfolding useFrame_attached [OF assms(1-3)] a
    using assms(4,6,8) by (simp_all add: newPosition_def mult.commute)
  moreover have "\<bar>10 * cos 0.029 - 9.9958\<bar> < (0.0001::real)"
    using cos_29 by (simp add: abs_less_iff)
  moreover have "\<bar>10 * sin 0.029 - 0.2899\<bar> < (0.0001::real)"
    using sin_29 by (simp add: abs_less_iff)
  ultimately show ?thesis by simp
qed

theorem earth_first_tick_witness:
  "groupRef (mount (earthProps True)) = Some (Vector3 10 0 0) \<and>
   meshRef (mount (earthProps True)) = Some 0 \<and>
   glowRef (mount (earthProps True)) = Some 0 \<and>
   vy (Vector3 10 0 0) = 0 \<and> angle (mount (earthProps True)) = 0 \<and>
   orbitRadius (earthProps True) = 10 \<and> orbitSpeed (earthProps True) = 0.029 \<and>
   isHeliocentric (earthProps True) \<and>
   angle (useFrame (earthProps True) (mount (earthProps True))) = 0.029 \<and>
   groupRef (useFrame (earthProps True) (mount (earthProps True)))
     = Some (Vector3 (10 * cos 0.029) 0 (10 * sin 0.029)) \<and>
   \<bar>10 * cos 0.029 - 9.9958\<bar> < (0.0001::real) \<and>
   \<bar>10 * sin 0.029 - 0.2899\<bar> < (0.0001::real)"
proof -
  have h: "groupRef (mount (earthProps True)) = Some (Vector3 10 0 0)"
    "meshRef (mount (earthProps True)) = Some 0"
    "glowRef (mount (earthProps True)) = Some 0"
    "vy (Vector3 10 0 0) = 0" "angle (mount (earthProps True)) = 0"
    "orbitRadius (earthProps True) = 10" "orbitSpeed (earthProps True) = 0.029"
    "isHeliocentric (earthProps True)"
    by (simp_all add: mount_def groupPositionProp_def earthProps_def)
  from earth_first_tick [OF h] h show ?thesis by (simp only: simp_thms)
qed

text \<open>
  C2 as stated gives \<open>x \<approx> 9.9996\<close>; on the first frame of the heliocentric Earth the
  \<open>x\<close> coordinate is \<open>10 cos 0.029 < 9.9958\<close>, more than \<open>0.003\<close> away from that figure.
\<close>

theorem earth_first_tick_counterexample:
  "0.003 < \<bar>vx (the (groupRef (useFrame (earthProps True) (mount (earthProps True))))) - 9.9996\<bar>"
proof -
  have "vx (the (groupRef (useFrame (earthProps True) (mount (earthProps True)))))
        = 10 * cos 0.029"
    by (simp add: useFrame_def newPosition_def mount_def groupPositionProp_def earthProps_def Let_def)
  then show ?thesis using cos_29 by simp
qed

text \<open>
  C10: in the geocentric frame the Sun is configured with orbit radius \<open>30\<close> and is
  neither Earth nor Moon, so every frame places it at deferent plus epicycle with
  epicycle radius \<open>0.05 \<times> 30\<close>; its distance from the origin lies in \<open>[28.5, 31.5]\<close>, and
  it is never at the origin, which is its configured fixed \<open>position\<close>.
\<close>

theorem sun_geocentric_orbit:
  assumes "groupRef s = Some g" and "meshRef s = Some m" and "glowRef s = Some w"
    and "vy g = 0"
  shows "orbitRadius (sunProps False) = 30 \<and>
         name (sunProps False) \<noteq> ''Earth'' \<and> name (sunProps False) \<noteq> ''Moon'' \<and>
         (\<exists>v. groupRef (useFrame (sunProps False) s) = Some v \<and>
              v = Vector3 (30 * cos (angle s + 0.02) + 30 * 0.05 * cos (- 1.5 * (angle s + 0.02))) 0
                          (30 * sin (angle s + 0.02) + 30 * 0.05 * sin (- 1.5 * (angle s + 0.02))) \<and>
              30 * (1 - 0.05) \<le> vlength v \<and> vlength v \<le> 30 * (1 + 0.05) \<and>
              28.5 \<le> vlength v \<and> vlength v \<le> 31.5 \<and>
              v \<noteq> Vector3 0 0 0 \<and> v \<noteq> position (sunProps False))"
proof -
  define a where "a = angle s + 0.02"
  define v where "v = Vector3 (30 * cos a + 30 * 0.05 * cos (- 1.5 * a)) 0
                              (30 * sin a + 30 * 0.05 * sin (- 1.5 * a))"
  have cfg: "orbitRadius (sunProps False) = 30" "orbitSpeed (sunProps False) = 0.02"
    "0 < orbitRadius (sunProps False)" "\<not> isHeliocentric (sunProps False)"
    "name (sunProps False) \<noteq> ''Earth''" "name (sunProps False) \<noteq> ''Moon''"
    "position (sunProps False) = Vector3 0 0 0"
    by (simp_all add: sunProps_def)
  have step: "groupRef (useFrame (sunProps False) s) = Some v"
    using assms newPosition_geocentric [OF cfg(3-6), of a g]
    by (simp add: useFrame_attached cfg(1,2) v_def a_def)
  have lo: "30 - 30 * 0.05 \<le> vlength v"
    unfolding v_def by (rule vlength_epicycle_bounds(1)) simp_all
  have hi: "vlength v \<le> 30 + 30 * 0.05"
    unfolding v_def by (rule vlength_epicycle_bounds(2)) simp_all
  have "vlength (Vector3 0 0 0) = 0" by (simp add: vlength_def)
  with lo have ne: "v \<noteq> Vector3 0 0 0" by auto
  show ?thesis
    using step lo hi ne cfg unfolding v_def a_def by simp
qed

theorem sun_geocentric_orbit_witness:
  "groupRef (mount (sunProps False)) = Some (Vector3 30 0 0) \<and>
   meshRef (mount (sunProps False)) = Some 0 \<and>
   glowRef (mount (sunProps False)) = Some 0 \<and>
   vy (Vector3 30 0 0) = 0 \<and>
   (\<exists>v. groupRef (useFrame (sunProps False) (mount (sunProps False))) = Some v \<and>
        28.5 \<le> vlength v \<and> vlength v \<le> 31.5 \<and> v \<noteq> Vector3 0 0 0)"
proof -
  have h: "groupRef (mount (sunProps False)) = Some (Vector3 30 0 0)"
    "meshRef (mount (sunProps False)) = Some 0"
    "glowRef (mount (sunProps False)) = Some 0"
    "vy (Vector3 30 0 0) = 0"
    by (simp_all add: mount_def groupPositionProp_def sunProps_def)
  from sun_geocentric_orbit [OF h] h show ?thesis by blast
qed

section \<open>Properties of the retrograde curve\<close>



text \<open>
  C4: for \<open>r > 0\<close>, every point of the ring curve and every position that the callback
  gives a geocentric body other than Earth and Moon lies at a distance from the origin
  within \<open>[r (1 - 0.1), r (1 + 0.1)]\<close>; the distance is exactly \<open>r\<close> only at the phases
  where the cosine of the angle between deferent and epicycle arm takes one particular
  value: \<open>cos (6 Math.PI t) = -0.05\<close> on the ring, \<open>cos (2.5 a) = -0.025\<close> for the body.
\<close>

theorem epicycle_distance_bounds:
  assumes "0 < r"
    and "groupRef s = Some g" and "meshRef s = Some m" and "glowRef s = Some w"
    and "vy g = 0" and "orbitRadius p = r" and "\<not> isHeliocentric p"
    and "name p \<noteq> ''Earth''" and "name p \<noteq> ''Moon''"
  shows "r * (1 - 0.1) \<le> vlength (getPoint (ringCurve r) t) \<and>
         vlength (getPoint (ringCurve r) t) \<le> r * (1 + 0.1) \<and>
         (vlength (getPoint (ringCurve r) t) = r \<longleftrightarrow> cos (6 * Math_PI * t) = - 0.05) \<and>
         (\<exists>v. groupRef (useFrame p s) = Some v \<and>
              r * (1 - 0.1) \<le> vlength v \<and> vlength v \<le> r * (1 + 0.1) \<and>
              (vlength v = r \<longleftrightarrow> cos (2.5 * angle (useFrame p s)) = - 0.025))"
proof -
  have e: "0 \<le> r * 0.1" "r * 0.1 \<le> r" "0 \<le> r * 0.05" "r * 0.05 \<le> r"
    using assms(1) by simp_all
  have ring: "2 * Math_PI * t - - 2 * (2 * Math_PI * t) = 6 * Math_PI * t" by simp
  have "r - r * 0.1 \<le> vlength (getPoint (ringCurve r) t)"
    unfolding getPoint_ring by (rule vlength_epicycle_bounds(1) [OF e(1,2)])
  moreover have "vlength (getPoint (ringCurve r) t) \<le> r + r * 0.1"
    unfolding getPoint_ring by (rule vlength_epicycle_bounds(2) [OF e(1,2)])
  moreover have "vlength (getPoint (ringCurve r) t) = r \<longleftrightarrow> cos (6 * Math_PI * t) = - 0.05"
    unfolding getPoint_ring
    using vlength_epicycle_on_deferent [OF assms(1), of "0.1" "2 * Math_PI * t" "- 2 * (2 * Math_PI * t)"]
    unfolding ring by simp
  moreover have "\<exists>v. groupRef (useFrame p s) = Some v \<and>
              r * (1 - 0.1) \<le> vlength v \<and> vlength v \<le> r * (1 + 0.1) \<and>
              (vlength v = r \<longleftrightarrow> cos (2.5 * angle (useFrame p s)) = - 0.025)"
  proof -
    define a where "a = angle s + orbitSpeed p"
    define v where "v = Vector3 (r * cos a + r * 0.05 * cos (- 1.5 * a)) 0
                                (r * sin a + r * 0.05 * sin (- 1.5 * a))"
    have pos: "0 < orbitRadius p" using assms(1,6) by simp
    have live: "a - - 1.5 * a = 2.5 * a" by simp
    have "groupRef (useFrame p s) = Some v" and ang: "angle (useFrame p s) = a"
      using assms(2-6) newPosition_geocentric [OF pos assms(7-9), of a g]
      by (simp_all add: useFrame_attached v_def a_def)
    moreover have "r - r * 0.05 \<le> vlength v"
      unfolding v_def by (rule vlength_epicycle_bounds(1) [OF e(3,4)])
    moreover have "vlength v \<le> r + r * 0.05"
      unfolding v_def by (rule vlength_epicycle_bounds(2) [OF e(3,4)])
    moreover have "vlength v = r \<longleftrightarrow> cos (2.5 * a) = - 0.025"
      unfolding v_def
      using vlength_epicycle_on_deferent [OF assms(1), of "0.05" a "- 1.5 * a"]
      unfolding live by simp
    ultimately show ?thesis using assms(1) by (intro exI [of _ v]) (simp add: algebra_simps)
  qed
  ultimately show ?thesis by (simp add: algebra_simps)
qed

theorem epicycle_distance_bounds_witness:
  "(0::real) < 30 \<and>
   groupRef (mount (sunProps False)) = Some (Vector3 30 0 0) \<and>
   meshRef (mount (sunProps False)) = Some 0 \<and>
   glowRef (mount (sunProps False)) = Some 0 \<and>
   vy (Vector3 30 0 0) = 0 \<and> orbitRadius (sunProps False) = 30 \<and>
   \<not> isHeliocentric (sunProps False) \<and>
   name (sunProps False) \<noteq> ''Earth'' \<and> name (sunProps False) \<noteq> ''Moon'' \<and>
   27 \<le> vlength (getPoint (ringCurve 30) (1 / 4)) \<and>
   vlength (getPoint (ringCurve 30) (1 / 4)) \<le> 33 \<and>
   (\<exists>v. groupRef (useFrame (sunProps False) (mount (sunProps False))) = Some v \<and>
        27 \<le> vlength v \<and> vlength v \<le> 33)"
proof -
  have h: "(0::real) < 30"
    "groupRef (mount (sunProps False)) = Some (Vector3 30 0 0)"
    "meshRef (mount (sunProps False)) = Some 0"
    "glowRef (mount (sunProps False)) = Some 0"
    "vy (Vector3 30 0 0) = 0" "orbitRadius (sunProps False) = 30"
    "\<not> isHeliocentric (sunProps False)"
    "name (sunProps False) \<noteq> ''Earth''" "name (sunProps False) \<noteq> ''Moon''"
    by (simp_all add: mount_def groupPositionProp_def sunProps_def)
  have "30 * (1 - 0.1) = (27::real)" "30 * (1 + 0.1) = (33::real)" by simp_all
  with epicycle_distance_bounds [OF h, of "1 / 4"] h show ?thesis by auto
qed

section \<open>Properties of the frame toggle\<close>

text \<open>
  C8 (as the code has it): a click on the toggle replaces the frame value by its
  negation, and the same handler flips \<open>animTrigger\<close> and clears
  \<open>selectedObjectInfo\<close>. In every state the application can reach, Earth and Moon
  are mounted and keep their stored angle across the click, and afterwards the mounted
  bodies carry the props of the new frame, so that only the position formula applied
  to the angle differs.
\<close>

theorem toggle_frame_effect:
  assumes "reachable app"
  shows "isHeliocentricState (hooks (clickToggle app)) = (\<not> isHeliocentricState (hooks app)) \<and>
         animTrigger (hooks (clickToggle app)) = (\<not> animTrigger (hooks app)) \<and>
         selectedObjectInfo (hooks (clickToggle app)) = None \<and>
         storedAngle ''Earth'' (clickToggle app) = storedAngle ''Earth'' app \<and>
         storedAngle ''Earth'' app \<noteq> None \<and>
         storedAngle ''Moon'' (clickToggle app) = storedAngle ''Moon'' app \<and>
         storedAngle ''Moon'' app \<noteq> None \<and>
         map elementOf (canvas (clickToggle app)) = bodies (\<not> isHeliocentricState (hooks app))"
proof -
  have t: "map elementOf (canvas app) = bodies (isHeliocentricState (hooks app))"
    using reachable_rendered [OF assms] by (simp add: rendered_def)
  have c: "canvas (clickToggle app)
           = reconcileChildren (canvas app) (bodies (\<not> isHeliocentricState (hooks app)))"
    by (simp add: clickToggle_def toggleOnClick_def Let_def)
  have "storedAngle ''Earth'' (clickToggle app) = storedAngle ''Earth'' app \<and>
        storedAngle ''Earth'' app \<noteq> None"
    unfolding storedAngle_def c using earth_moon_kept [OF t, of "''Earth''"] by simp
  moreover have "storedAngle ''Moon'' (clickToggle app) = storedAngle ''Moon'' app \<and>
        storedAngle ''Moon'' app \<noteq> None"
    unfolding storedAngle_def c using earth_moon_kept [OF t, of "''Moon''"] by simp
  moreover have "map elementOf (canvas (clickToggle app))
                 = bodies (\<not> isHeliocentricState (hooks app))"
    unfolding c by (rule elementOf_reconcile(2))
  ultimately show ?thesis by (simp add: clickToggle_def toggleOnClick_def Let_def)
qed

theorem toggle_frame_effect_witness:
  "reachable (frame initialApp) \<and>
   isHeliocentricState (hooks (frame initialApp)) \<and>
   \<not> isHeliocentricState (hooks (clickToggle (frame initialApp))) \<and>
   storedAngle ''Earth'' (frame initialApp) = Some 0.029 \<and>
   storedAngle ''Earth'' (clickToggle (frame initialApp)) = Some 0.029 \<and>
   storedAngle ''Moon'' (frame initialApp) = Some 0.07 \<and>
   storedAngle ''Moon'' (clickToggle (frame initialApp)) = Some 0.07"
proof -
  have r: "reachable (frame initialApp)"
    by (intro reachable_frame reachable_initial)
  have h: "isHeliocentricState (hooks (frame initialApp))"
    by (simp add: frame_def initialApp_def)
  have e: "storedAngle ''Earth'' (frame initialApp) = Some 0.029"
    unfolding storedAngle_def first_frame_canvas
    by (simp add: angle_first_frame) (simp add: earthProps_def)
  have m: "storedAngle ''Moon'' (frame initialApp) = Some 0.07"
    unfolding storedAngle_def first_frame_canvas
    by (simp add: angle_first_frame) (simp add: moonProps_def)
  from toggle_frame_effect [OF r] r h e m show ?thesis by simp
qed

text \<open>
  C8 as stated fails after the first heliocentric frame: the click changes
  \<open>animTrigger\<close> besides the frame value, Mercury's \<open>Planet\<close> moves into a \<open>Trail\<close>
  in its child slot and is mounted afresh, so its stored angle \<open>0.047\<close> is back at
  \<open>0\<close>, and Pluto is unmounted.
\<close>

theorem toggle_counterexample:
  "animTrigger (hooks (clickToggle (frame initialApp))) \<noteq> animTrigger (hooks (frame initialApp)) \<and>
   storedAngle ''Mercury'' (frame initialApp) = Some 0.047 \<and>
   storedAngle ''Mercury'' (clickToggle (frame initialApp)) = Some 0 \<and>
   storedAngle ''Pluto'' (frame initialApp) = Some 0.004 \<and>
   storedAngle ''Pluto'' (clickToggle (frame initialApp)) = None"
proof -
  have a: "animTrigger (hooks (clickToggle (frame initialApp)))
           \<noteq> animTrigger (hooks (frame initialApp))"
    by (simp add: clickToggle_def toggleOnClick_def Let_def)
  have f: "isHeliocentricState (toggleOnClick (hooks (frame initialApp))) = False"
    by (simp add: toggleOnClick_def frame_def initialApp_def)
  have c: "canvas (clickToggle (frame initialApp))
           = reconcileChildren (canvas (frame initialApp)) (bodies False)"
    by (simp add: clickToggle_def Let_def f)
  have m1: "storedAngle ''Mercury'' (frame initialApp) = Some 0.047"
    unfolding storedAngle_def first_frame_canvas
    by (simp add: angle_first_frame) (simp add: mercuryProps_def)
  have m2: "storedAngle ''Mercury'' (clickToggle (frame initialApp)) = Some 0"
    unfolding storedAngle_def c first_frame_canvas
    by (simp add: bodies_def) (simp add: mount_def)
  have p1: "storedAngle ''Pluto'' (frame initialApp) = Some 0.004"
    unfolding storedAngle_def first_frame_canvas
    by (simp add: angle_first_frame) (simp add: plutoProps_def)
  have p2: "storedAngle ''Pluto'' (clickToggle (frame initialApp)) = None"
    unfolding storedAngle_def c first_frame_canvas
    by (simp add: bodies_def)
  from a m1 m2 p1 p2 show ?thesis by simp
qed

section \<open>Properties of the frame prop\<close>

text \<open>
  C9 (as the code has it): the frame is a Boolean flag and the callback has no rejecting
  path. With the refs attached it returns the advanced angle and a position for either
  value of the flag, and a run-time value outside the type is read through
  \<open>ToBoolean\<close>: truthy as heliocentric, falsy as geocentric.
\<close>

theorem frame_flag_total:
  assumes "groupRef s = Some g" and "meshRef s = Some m" and "glowRef s = Some w"
  shows "angle (useFrame p s) = angle s + orbitSpeed p \<and>
         groupRef (useFrame p s) = Some (newPosition p (angle s + orbitSpeed p) g) \<and>
         angle (useFrame_untyped v p s) = angle s + orbitSpeed p \<and>
         groupRef (useFrame_untyped v p s)
           = Some (newPosition (p\<lparr>isHeliocentric := toBoolean v\<rparr>) (angle s + orbitSpeed p) g)"
  using assms by (simp add: useFrame_untyped_def useFrame_attached)

theorem frame_flag_total_witness:
  "groupRef (mount (sunProps False)) = Some (Vector3 30 0 0) \<and>
   meshRef (mount (sunProps False)) = Some 0 \<and>
   glowRef (mount (sunProps False)) = Some 0 \<and>
   angle (useFrame (sunProps False) (mount (sunProps False))) = 0.02 \<and>
   angle (useFrame_untyped JSUndefined (sunProps False) (mount (sunProps False))) = 0.02 \<and>
   groupRef (useFrame_untyped JSUndefined (sunProps False) (mount (sunProps False)))
     = Some (newPosition (sunProps False) 0.02 (Vector3 30 0 0))"
proof -
  have h: "groupRef (mount (sunProps False)) = Some (Vector3 30 0 0)"
    "meshRef (mount (sunProps False)) = Some 0"
    "glowRef (mount (sunProps False)) = Some 0"
    by (simp_all add: mount_def groupPositionProp_def sunProps_def)
  have p: "(sunProps False)\<lparr>isHeliocentric := toBoolean JSUndefined\<rparr> = sunProps False"
    "angle (mount (sunProps False)) + orbitSpeed (sunProps False) = 0.02"
    by (simp_all add: sunProps_def mount_def)
  from frame_flag_total [OF h, of "sunProps False" JSUndefined] h show ?thesis
    unfolding p by simp
qed

text \<open>
  C9 as stated fails: the string \<open>ecliptic\<close> is neither frame value, yet the callback
  accepts it and places the geocentric Sun on the plain circle, as for the heliocentric
  frame; \<open>undefined\<close> is accepted too and runs as the geocentric frame.
\<close>

theorem unknown_frame_counterexample:
  "JSString ''ecliptic'' \<noteq> JSBoolean True \<and> JSString ''ecliptic'' \<noteq> JSBoolean False \<and>
   useFrame_untyped (JSString ''ecliptic'') (sunProps False) (mount (sunProps False))
     = useFrame ((sunProps False)\<lparr>isHeliocentric := True\<rparr>) (mount (sunProps False)) \<and>
   groupRef (useFrame_untyped (JSString ''ecliptic'') (sunProps False) (mount (sunProps False)))
     = Some (Vector3 (cos 0.02 * 30) 0 (sin 0.02 * 30)) \<and>
   JSUndefined \<noteq> JSBoolean True \<and> JSUndefined \<noteq> JSBoolean False \<and>
   useFrame_untyped JSUndefined (sunProps False) (mount (sunProps False))
     = useFrame (sunProps False) (mount (sunProps False))"
  by (simp add: useFrame_untyped_def useFrame_def newPosition_def mount_def
      groupPositionProp_def sunProps_def Let_def)

end
